theory Spec2Isabelle
  imports Complex_Main
begin

section \<open>JavaScript numbers\<close>

text \<open>
  The program computes with JavaScript numbers. They are embedded as exact rationals
  together with the two infinities and NaN, so that every way in which the source
  reaches a not-a-number or a falsy value is a branch of the model. Binary rounding,
  with the overflow to an infinity and the underflow to zero that it brings, and the
  sign of zero are outside the model: sums, products and quotients of finite numbers
  are exact, there is one zero, and where IEEE arithmetic asks for the sign of a zero
  divisor it is taken as positive. Every division of the embedded code sits behind a
  test that excludes a zero divisor.
\<close>

datatype jsnum = Num rat | Infty bool | NaN

fun jneg :: "jsnum \<Rightarrow> jsnum" where
  "jneg (Num a) = Num (- a)"
| "jneg (Infty s) = Infty (\<not> s)"
| "jneg NaN = NaN"

fun jadd :: "jsnum \<Rightarrow> jsnum \<Rightarrow> jsnum" where
  "jadd (Num a) (Num b) = Num (a + b)"
| "jadd (Num a) (Infty t) = Infty t"
| "jadd (Infty s) (Num b) = Infty s"
| "jadd (Infty s) (Infty t) = (if s = t then Infty s else NaN)"
| "jadd NaN y = NaN"
| "jadd x NaN = NaN"

definition jsub :: "jsnum \<Rightarrow> jsnum \<Rightarrow> jsnum" where
  "jsub x y = jadd x (jneg y)"

fun jmul :: "jsnum \<Rightarrow> jsnum \<Rightarrow> jsnum" where
  "jmul (Num a) (Num b) = Num (a * b)"
| "jmul (Num a) (Infty t) = (if a = 0 then NaN else Infty (t = (0 < a)))"
| "jmul (Infty s) (Num b) = (if b = 0 then NaN else Infty (s = (0 < b)))"
| "jmul (Infty s) (Infty t) = Infty (s = t)"
| "jmul NaN y = NaN"
| "jmul x NaN = NaN"

fun jdiv :: "jsnum \<Rightarrow> jsnum \<Rightarrow> jsnum" where
  "jdiv (Num a) (Num b) =
     (if b \<noteq> 0 then Num (a / b) else if a = 0 then NaN else Infty (0 < a))"
| "jdiv (Num a) (Infty t) = Num 0"
| "jdiv (Infty s) (Num b) = Infty (s = (0 \<le> b))"
| "jdiv (Infty s) (Infty t) = NaN"
| "jdiv NaN y = NaN"
| "jdiv x NaN = NaN"

text \<open>\<open>x < y\<close>; every comparison with NaN is false.\<close>

fun jlt :: "jsnum \<Rightarrow> jsnum \<Rightarrow> bool" where
  "jlt (Num a) (Num b) = (a < b)"
| "jlt (Num a) (Infty t) = t"
| "jlt (Infty s) (Num b) = (\<not> s)"
| "jlt (Infty s) (Infty t) = (\<not> s \<and> t)"
| "jlt NaN y = False"
| "jlt x NaN = False"

definition jgt :: "jsnum \<Rightarrow> jsnum \<Rightarrow> bool" where
  "jgt x y = jlt y x"

text \<open>\<open>Math.abs\<close>.\<close>

fun jabs :: "jsnum \<Rightarrow> jsnum" where
  "jabs (Num a) = Num \<bar>a\<bar>"
| "jabs (Infty s) = Infty True"
| "jabs NaN = NaN"

text \<open>Truthiness of a number, as \<open>!x\<close>, \<open>x && y\<close> and \<open>x || y\<close> test it: zero and NaN are falsy.\<close>

fun truthy :: "jsnum \<Rightarrow> bool" where
  "truthy (Num a) = (a \<noteq> 0)"
| "truthy (Infty s) = True"
| "truthy NaN = False"

text \<open>
  \<open>Math.max(...xs)\<close> and \<open>Math.min(...xs)\<close>: NaN as soon as one argument is NaN,
  and the infinities on no argument.
\<close>

definition jmax2 :: "jsnum \<Rightarrow> jsnum \<Rightarrow> jsnum" where
  "jmax2 x y = (if x = NaN \<or> y = NaN then NaN else if jlt x y then y else x)"

definition jmin2 :: "jsnum \<Rightarrow> jsnum \<Rightarrow> jsnum" where
  "jmin2 x y = (if x = NaN \<or> y = NaN then NaN else if jlt y x then y else x)"

definition Math_max :: "jsnum list \<Rightarrow> jsnum" where
  "Math_max xs = foldl jmax2 (Infty False) xs"

definition Math_min :: "jsnum list \<Rightarrow> jsnum" where
  "Math_min xs = foldl jmin2 (Infty True) xs"

subsection \<open>parseFloat\<close>

text \<open>
  \<open>parseFloat\<close> skips leading white space (the ASCII characters of it) and reads
  the longest prefix that is a decimal literal: an optional sign, then \<open>Infinity\<close>,
  or digits with an optional fraction and an optional exponent. With no such prefix the
  result is NaN. The value is exact here.
\<close>

definition isWhite :: "char \<Rightarrow> bool" where
  "isWhite c = (c = CHR '' '' \<or> (9 \<le> (of_char c :: int) \<and> (of_char c :: int) \<le> 13))"

definition isDigit :: "char \<Rightarrow> bool" where
  "isDigit c = (48 \<le> (of_char c :: int) \<and> (of_char c :: int) \<le> 57)"

definition digitsVal :: "string \<Rightarrow> int" where
  "digitsVal ds = foldl (\<lambda>a c. 10 * a + ((of_char c :: int) - 48)) 0 ds"

definition readSign :: "string \<Rightarrow> bool \<times> string" where
  "readSign s =
     (case s of
        [] \<Rightarrow> (False, s)
      | c # r \<Rightarrow> if c = CHR ''-'' then (True, r) else if c = CHR ''+'' then (False, r)
                 else (False, s))"

definition expPart :: "string \<Rightarrow> int" where
  "expPart s =
     (case s of
        [] \<Rightarrow> 0
      | c # r \<Rightarrow>
          if c = CHR ''e'' \<or> c = CHR ''E'' then
            (let (neg, r') = readSign r; ds = takeWhile isDigit r'
             in if ds = [] then 0
                else if neg then - digitsVal ds else digitsVal ds)
          else 0)"

definition pow10 :: "int \<Rightarrow> rat" where
  "pow10 e = (if 0 \<le> e then 10 ^ nat e else 1 / 10 ^ nat (- e))"

definition parseFloat :: "string \<Rightarrow> jsnum" where
  "parseFloat s =
     (let (neg, u) = readSign (dropWhile isWhite s)
      in if take 8 u = ''Infinity'' then Infty (\<not> neg)
         else
           let ip = takeWhile isDigit u;
               r1 = dropWhile isDigit u;
               (fp, r2) = (case r1 of
                             [] \<Rightarrow> ([], r1)
                           | c # r \<Rightarrow> if c = CHR ''.''
                                      then (takeWhile isDigit r, dropWhile isDigit r)
                                      else ([], r1))
           in if ip = [] \<and> fp = [] then NaN
              else
                let m = (of_int (digitsVal ip) + of_int (digitsVal fp) / 10 ^ length fp)
                          * pow10 (expPart r2)
                in Num (if neg then - m else m))"

text \<open>\<open>s || d\<close> on strings: the empty string is falsy.\<close>

definition orStr :: "string \<Rightarrow> string \<Rightarrow> string" where
  "orStr s d = (if s = [] then d else s)"

subsection \<open>toFixed(6)\<close>

text \<open>
  \<open>x.toFixed(6)\<close>: the integer \<open>n\<close> nearest to \<open>|x| * 10^6\<close> (the larger one on a
  tie), written in decimal with at least one digit before the point and six after, and
  a minus sign when \<open>x < 0\<close>. NaN and the infinities print by name. Above \<open>10^21\<close>
  JavaScript switches to exponent notation, which depends on the binary representation;
  the positional digits are kept here.
\<close>

definition digitChar :: "int \<Rightarrow> char" where
  "digitChar d = char_of (48 + d)"

function decimal :: "int \<Rightarrow> string" where
  "decimal n = (if n < 10 then [digitChar n] else decimal (n div 10) @ [digitChar (n mod 10)])"
  by pat_completeness auto
termination
  by (relation "measure nat") auto

declare decimal.simps [simp del]

definition toFixed6 :: "jsnum \<Rightarrow> string" where
  "toFixed6 x =
     (case x of
        NaN \<Rightarrow> ''NaN''
      | Infty s \<Rightarrow> (if s then ''Infinity'' else ''-Infinity'')
      | Num r \<Rightarrow>
          (let n = \<lfloor>\<bar>r\<bar> * 1000000 + 1 / 2\<rfloor>;
               ds = decimal n;
               m = replicate (7 - length ds) (CHR ''0'') @ ds;
               k = length m - 6
           in (if r < 0 then ''-'' else []) @ take k m @ ''.'' @ drop k m))"

section \<open>Types\<close>

record OrderbookLevel =
  price :: string
  size_l :: string

text \<open>
  The feed may give a level as a bare string, as a tuple whose first component is the
  price, or as an object with a price field; \<open>getBestBid\<close> and \<open>getBestAsk\<close>
  distinguish the three.
\<close>

datatype level = LevelString string | LevelTuple "string list" | LevelObject OrderbookLevel

record Orderbook =
  bids :: "level list option"
  asks :: "level list option"
  timestamp_ob :: "string option"
  min_order_size :: "string option"
  tick_size :: "string option"

record Market =
  id_m :: string
  question :: string
  slug :: string
  conditionId_m :: string
  clobTokenIds :: "string list"
  active :: bool
  closed :: bool
  outcomes :: "string list"

record Position =
  conditionId :: string
  outcome :: string
  size_p :: string
  avgPrice :: string
  curPrice :: string
  cashPnl :: string
  percentPnl :: string

datatype side = BUY | SELL

record Order =
  id_o :: string
  marketId_o :: string
  tokenId_o :: string
  side_o :: side
  price_o :: string
  size_o :: string
  filled :: string
  status :: string
  createdAt :: string

record MarketMakerConfig =
  spreadBps :: jsnum
  orderSizeUsd :: jsnum
  maxPositionSizeUsd :: jsnum
  maxInventoryImbalance :: jsnum

text \<open>\<open>Partial<MarketMakerConfig>\<close>: every field may be absent.\<close>

record PartialConfig =
  spreadBps_opt :: "jsnum option"
  orderSizeUsd_opt :: "jsnum option"
  maxPositionSizeUsd_opt :: "jsnum option"
  maxInventoryImbalance_opt :: "jsnum option"

record Inventory =
  yesSize :: jsnum
  noSize :: jsnum
  yesValue :: jsnum
  noValue :: jsnum
  netExposure :: jsnum

record Quote =
  side_q :: side
  price_q :: string
  size_q :: string
  tokenId_q :: string

text \<open>The process-wide configuration, with the fields the services read.\<close>

record Strategy =
  defaultSpreadBps :: jsnum
  defaultOrderSizeUsd :: jsnum
  maxPositionSizeUsd_s :: jsnum
  maxInventoryImbalance_s :: jsnum
  orderRefreshIntervalMs :: int

record Risk =
  maxTotalExposureUsd :: jsnum
  maxPositionPerMarketUsd :: jsnum
  enableRiskLimits :: bool

record Config =
  strategy :: Strategy
  risk :: Risk

section \<open>Containers\<close>

text \<open>
  A JavaScript \<open>Map\<close> is an association list in insertion order with unique keys:
  setting a present key replaces its value in place. A \<open>Set\<close> is a list in
  insertion order without repetition.
\<close>

fun mapSet :: "('k \<times> 'v) list \<Rightarrow> 'k \<Rightarrow> 'v \<Rightarrow> ('k \<times> 'v) list" where
  "mapSet [] k v = [(k, v)]"
| "mapSet ((k', v') # m) k v = (if k' = k then (k, v) # m else (k', v') # mapSet m k v)"

definition setAdd :: "'a list \<Rightarrow> 'a \<Rightarrow> 'a list" where
  "setAdd xs x = (if x \<in> set xs then xs else xs @ [x])"

definition setDelete :: "'a list \<Rightarrow> 'a \<Rightarrow> 'a list" where
  "setDelete xs x = removeAll x xs"

section \<open>PolymarketClient\<close>

text \<open>
  A request either fails (network error, timeout, error status: the promise is
  rejected) or delivers a body. The client catches every failure itself.
\<close>

datatype 'a response = Failed | Data 'a

text \<open>The body of the positions endpoint: an array of positions, or anything else.\<close>

datatype positions_body = PositionArray "Position list" | NotAnArray

definition getPositions :: "positions_body response \<Rightarrow> Position list" where
  "getPositions r =
     (case r of
        Data b \<Rightarrow> (case b of PositionArray ps \<Rightarrow> ps | NotAnArray \<Rightarrow> [])
      | Failed \<Rightarrow> [])"

definition getOrderbook :: "Orderbook response \<Rightarrow> Orderbook option" where
  "getOrderbook r = (case r of Data ob \<Rightarrow> Some ob | Failed \<Rightarrow> None)"

text \<open>The calls that reach the exchange, in the order they are made.\<close>

datatype call = CancelOrder string | PlaceOrder string side string string

section \<open>InventoryManager\<close>

type_synonym positions = "(string \<times> Position) list"

definition positionKey :: "Position \<Rightarrow> string" where
  "positionKey p = conditionId p @ ''-'' @ outcome p"

text \<open>
  The body of \<open>updateInventory\<close> on the outcome of the awaited call: \<open>Inl\<close> is a
  rejection, which the \<open>catch\<close> logs, \<open>Inr\<close> the list the call returned.
\<close>

definition updateInventoryWith :: "string + Position list \<Rightarrow> positions \<Rightarrow> positions" where
  "updateInventoryWith fetched cache =
     (case fetched of
        Inl err \<Rightarrow> cache
      | Inr ps \<Rightarrow> foldl (\<lambda>m p. mapSet m (positionKey p) p) [] ps)"

text \<open>
  \<open>updateInventory\<close> awaits \<open>client.getPositions()\<close>, which returns a list on
  every outcome of the request.
\<close>

definition updateInventory :: "positions_body response \<Rightarrow> positions \<Rightarrow> positions" where
  "updateInventory r cache = updateInventoryWith (Inr (getPositions r)) cache"

definition getInventory :: "positions \<Rightarrow> string \<Rightarrow> Inventory" where
  "getInventory ps cid =
     (let yesKey = cid @ ''-YES'';
          noKey = cid @ ''-NO'';
          yesPosition = map_of ps yesKey;
          noPosition = map_of ps noKey;
          yesSz = (case yesPosition of Some p \<Rightarrow> parseFloat (size_p p) | None \<Rightarrow> Num 0);
          noSz = (case noPosition of Some p \<Rightarrow> parseFloat (size_p p) | None \<Rightarrow> Num 0);
          yesVal = (case yesPosition of
                      Some p \<Rightarrow> jmul (parseFloat (orStr (curPrice p) ''0'')) yesSz
                    | None \<Rightarrow> Num 0);
          noVal = (case noPosition of
                     Some p \<Rightarrow> jmul (parseFloat (orStr (curPrice p) ''0'')) noSz
                   | None \<Rightarrow> Num 0)
      in \<lparr> yesSize = yesSz, noSize = noSz, yesValue = yesVal, noValue = noVal,
           netExposure = jsub yesVal noVal \<rparr>)"

definition getInventoryImbalance :: "positions \<Rightarrow> string \<Rightarrow> jsnum" where
  "getInventoryImbalance ps cid =
     (let inventory = getInventory ps cid;
          totalValue = jadd (yesValue inventory) (noValue inventory)
      in if totalValue = Num 0 then Num 0
         else jdiv (netExposure inventory) totalValue)"

definition isInventoryBalanced :: "positions \<Rightarrow> string \<Rightarrow> jsnum \<Rightarrow> bool" where
  "isInventoryBalanced ps cid maxImbalance =
     (let imbalance = jabs (getInventoryImbalance ps cid)
      in imbalance \<noteq> NaN \<and> maxImbalance \<noteq> NaN \<and> \<not> jgt imbalance maxImbalance)"

definition getAllPositions :: "positions \<Rightarrow> Position list" where
  "getAllPositions ps = map snd ps"

section \<open>OrderbookMonitor\<close>

record OrderbookSnapshot =
  tokenId :: string
  orderbook :: Orderbook
  timestamp :: int
  bestBid :: "jsnum option"
  bestAsk :: "jsnum option"
  midPrice :: "jsnum option"
  spread :: "jsnum option"
  spreadBps_snap :: "jsnum option"

text \<open>A callback is a function object; the \<open>Set\<close> holding it compares by identity.\<close>

type_synonym callback = nat

record OrderbookMonitor =
  snapshots :: "(string \<times> OrderbookSnapshot) list"
  updateCallbacks :: "(string \<times> callback list) list"
  monitoring :: "string list"

text \<open>The price of one level, as the \<open>map\<close> in \<open>getBestBid\<close> and \<open>getBestAsk\<close>
  computes it. The first component of an empty tuple is \<open>undefined\<close>, which
  \<open>parseFloat\<close> reads as NaN.\<close>

definition levelPrice :: "level \<Rightarrow> jsnum" where
  "levelPrice l =
     (case l of
        LevelString s \<Rightarrow> parseFloat s
      | LevelTuple xs \<Rightarrow> (case xs of [] \<Rightarrow> NaN | p # rest \<Rightarrow> parseFloat p)
      | LevelObject ol \<Rightarrow> parseFloat (price ol))"

definition getBestBid :: "Orderbook \<Rightarrow> jsnum option" where
  "getBestBid ob =
     (case bids ob of
        None \<Rightarrow> None
      | Some bs \<Rightarrow> if length bs = 0 then None else Some (Math_max (map levelPrice bs)))"

definition getBestAsk :: "Orderbook \<Rightarrow> jsnum option" where
  "getBestAsk ob =
     (case asks ob of
        None \<Rightarrow> None
      | Some as \<Rightarrow> if length as = 0 then None else Some (Math_min (map levelPrice as)))"

text \<open>\<open>x && y ? f(x, y) : undefined\<close> on two optional numbers: absent, zero and NaN
  are falsy.\<close>

definition whenBoth ::
  "jsnum option \<Rightarrow> jsnum option \<Rightarrow> (jsnum \<Rightarrow> jsnum \<Rightarrow> jsnum) \<Rightarrow> jsnum option" where
  "whenBoth x y f =
     (case x of
        None \<Rightarrow> None
      | Some a \<Rightarrow>
          (case y of
             None \<Rightarrow> None
           | Some b \<Rightarrow> if truthy a \<and> truthy b then Some (f a b) else None))"

text \<open>The snapshot that \<open>updateOrderbook\<close> builds from a fetched orderbook.\<close>

definition makeSnapshot :: "string \<Rightarrow> Orderbook \<Rightarrow> int \<Rightarrow> OrderbookSnapshot" where
  "makeSnapshot tid ob now =
     (let bb = getBestBid ob;
          ba = getBestAsk ob;
          mid = whenBoth bb ba (\<lambda>b a. jdiv (jadd b a) (Num 2));
          spr = whenBoth bb ba (\<lambda>b a. jsub a b);
          bps = whenBoth mid spr (\<lambda>m s. jmul (jdiv s m) (Num 10000))
      in \<lparr> tokenId = tid, orderbook = ob, timestamp = now, bestBid = bb, bestAsk = ba,
           midPrice = mid, spread = spr, spreadBps_snap = bps \<rparr>)"

definition startMonitoring :: "OrderbookMonitor \<Rightarrow> string list \<Rightarrow> OrderbookMonitor" where
  "startMonitoring mon tokenIds = mon\<lparr> monitoring := foldl setAdd (monitoring mon) tokenIds \<rparr>"

definition callbacksOf :: "OrderbookMonitor \<Rightarrow> string \<Rightarrow> callback list" where
  "callbacksOf mon tid = (case map_of (updateCallbacks mon) tid of None \<Rightarrow> [] | Some cbs \<Rightarrow> cbs)"

text \<open>
  \<open>subscribe\<close> returns the changed monitor and the unsubscribe function. That function
  is a closure over the token and the callback, and is represented by the two;
  \<open>unsubscribe\<close> runs it.
\<close>

definition subscribe ::
  "OrderbookMonitor \<Rightarrow> string \<Rightarrow> callback \<Rightarrow> (string \<times> callback) \<times> OrderbookMonitor" where
  "subscribe mon tid cb =
     ((tid, cb),
      mon\<lparr> updateCallbacks := mapSet (updateCallbacks mon) tid (setAdd (callbacksOf mon tid) cb) \<rparr>)"

definition unsubscribe :: "string \<times> callback \<Rightarrow> OrderbookMonitor \<Rightarrow> OrderbookMonitor" where
  "unsubscribe h mon =
     (case map_of (updateCallbacks mon) (fst h) of
        None \<Rightarrow> mon
      | Some cbs \<Rightarrow>
          mon\<lparr> updateCallbacks := mapSet (updateCallbacks mon) (fst h) (setDelete cbs (snd h)) \<rparr>)"

definition getSnapshot :: "OrderbookMonitor \<Rightarrow> string \<Rightarrow> OrderbookSnapshot option" where
  "getSnapshot mon tid = map_of (snapshots mon) tid"

text \<open>
  \<open>updateOrderbook\<close> on the outcome of the fetch: the changed monitor and the callbacks
  it has invoked with the new snapshot, in order. A callback that throws is caught and
  the next one runs. The callbacks do not change the monitor while it notifies.
\<close>

definition updateOrderbook ::
  "OrderbookMonitor \<Rightarrow> string \<Rightarrow> int \<Rightarrow> Orderbook option \<Rightarrow> OrderbookMonitor \<times> callback list" where
  "updateOrderbook mon tid now fetched =
     (case fetched of
        None \<Rightarrow> (mon, [])
      | Some ob \<Rightarrow>
          (mon\<lparr> snapshots := mapSet (snapshots mon) tid (makeSnapshot tid ob now) \<rparr>,
           callbacksOf mon tid))"

section \<open>MarketMaker\<close>

record ActiveMarket =
  market :: Market
  config :: MarketMakerConfig
  yesTokenId :: string
  noTokenId :: string
  orders :: "string list"
  lastUpdate :: int

text \<open>
  The market maker with the two services it holds and the calls it has sent to the
  exchange. Each operation runs to its end before the next one starts.
\<close>

record System =
  inventory :: positions
  monitor :: OrderbookMonitor
  activeMarkets :: "(string \<times> ActiveMarket) list"
  running :: bool
  calls :: "call list"

datatype outcome_label = YES | NO

text \<open>\<open>x || d\<close> on an optional number: absent, zero and NaN are falsy.\<close>

definition orNum :: "jsnum option \<Rightarrow> jsnum \<Rightarrow> jsnum" where
  "orNum x d = (case x of None \<Rightarrow> d | Some v \<Rightarrow> if truthy v then v else d)"

definition checkRiskLimits :: "Config \<Rightarrow> System \<Rightarrow> string \<Rightarrow> bool" where
  "checkRiskLimits cfg st marketId =
     (if \<not> enableRiskLimits (risk cfg) then True
      else
        (case map_of (activeMarkets st) marketId of
           None \<Rightarrow> False
         | Some am \<Rightarrow>
             let imbalance = jabs (getInventoryImbalance (inventory st) (conditionId_m (market am)))
             in if jgt imbalance (maxInventoryImbalance (config am)) then False
                else
                  let inv = getInventory (inventory st) (conditionId_m (market am));
                      totalValue = jadd (yesValue inv) (noValue inv)
                  in if jgt totalValue (maxPositionSizeUsd (config am)) then False
                     else
                       let allPositions = getAllPositions (inventory st);
                           totalExposure =
                             foldl (\<lambda>sum pos.
                                      jadd sum (jmul (parseFloat (orStr (curPrice pos) ''0''))
                                                     (parseFloat (orStr (size_p pos) ''0''))))
                                   (Num 0) allPositions
                       in if jgt totalExposure (maxTotalExposureUsd (risk cfg)) then False
                          else True))"

text \<open>
  The buy and the sell size that \<open>calculateQuotes\<close> derives from the order size in
  tokens: both start at that size and are scaled in the four skew branches.
\<close>

definition skewSizes :: "outcome_label \<Rightarrow> jsnum \<Rightarrow> jsnum \<Rightarrow> jsnum \<times> jsnum" where
  "skewSizes oc imbalance orderSizeTokens =
     (case oc of
        YES \<Rightarrow>
          if jgt imbalance (Num (2 / 10))
          then (jmul orderSizeTokens (Num (5 / 10)), jmul orderSizeTokens (Num (15 / 10)))
          else if jlt imbalance (Num (- (2 / 10)))
          then (jmul orderSizeTokens (Num (15 / 10)), jmul orderSizeTokens (Num (5 / 10)))
          else (orderSizeTokens, orderSizeTokens)
      | NO \<Rightarrow>
          if jlt imbalance (Num (- (2 / 10)))
          then (jmul orderSizeTokens (Num (5 / 10)), jmul orderSizeTokens (Num (15 / 10)))
          else if jgt imbalance (Num (2 / 10))
          then (jmul orderSizeTokens (Num (15 / 10)), jmul orderSizeTokens (Num (5 / 10)))
          else (orderSizeTokens, orderSizeTokens))"

text \<open>
  \<open>calculateQuotes\<close> reads the imbalance of the session's condition from the inventory
  manager. The inventory and the unadjusted spread, which it computes and does not use,
  are left out.
\<close>

definition calculateQuotes ::
  "System \<Rightarrow> OrderbookSnapshot \<Rightarrow> MarketMakerConfig \<Rightarrow> outcome_label \<Rightarrow> string \<Rightarrow> Quote list" where
  "calculateQuotes st snapshot marketConfig oc marketId =
     (case midPrice snapshot of
        None \<Rightarrow> []
      | Some mid \<Rightarrow>
          if \<not> truthy mid then []
          else
            (case map_of (activeMarkets st) marketId of
               None \<Rightarrow> []
             | Some am \<Rightarrow>
                 let imbalance = getInventoryImbalance (inventory st) (conditionId_m (market am));
                     adjustedSpreadBps =
                       (if jgt (jabs imbalance) (Num (3 / 10))
                        then jmul (spreadBps marketConfig) (Num (3 / 2))
                        else spreadBps marketConfig);
                     adjustedSpread = jdiv (jmul mid adjustedSpreadBps) (Num 10000);
                     bidPrice = jsub mid (jdiv adjustedSpread (Num 2));
                     askPrice = jadd mid (jdiv adjustedSpread (Num 2));
                     orderSizeTokens = jdiv (orderSizeUsd marketConfig) mid;
                     buySize = fst (skewSizes oc imbalance orderSizeTokens);
                     sellSize = snd (skewSizes oc imbalance orderSizeTokens)
                 in [\<lparr> side_q = BUY, price_q = toFixed6 bidPrice, size_q = toFixed6 buySize,
                       tokenId_q = tokenId snapshot \<rparr>,
                     \<lparr> side_q = SELL, price_q = toFixed6 askPrice, size_q = toFixed6 sellSize,
                       tokenId_q = tokenId snapshot \<rparr>]))"

definition cancelAllOrders :: "System \<Rightarrow> string \<Rightarrow> System" where
  "cancelAllOrders st marketId =
     (case map_of (activeMarkets st) marketId of
        None \<Rightarrow> st
      | Some am \<Rightarrow>
          st\<lparr> calls := calls st @ map CancelOrder (orders am),
              activeMarkets := mapSet (activeMarkets st) marketId (am\<lparr> orders := [] \<rparr>) \<rparr>)"

text \<open>
  The placement loop of \<open>updateQuotes\<close>. The answer of the exchange to the \<open>i\<close>-th
  placement is \<open>placeOrder i q\<close>: an order, or \<open>null\<close>. The client catches its own
  failures, so no call in the body of \<open>updateQuotes\<close> throws and its \<open>catch\<close> has
  no branch here.
\<close>

fun placeQuotes ::
  "(nat \<Rightarrow> Quote \<Rightarrow> Order option) \<Rightarrow> nat \<Rightarrow> Quote list \<Rightarrow> string list \<times> call list
     \<Rightarrow> string list \<times> call list" where
  "placeQuotes placeOrder i [] acc = acc"
| "placeQuotes placeOrder i (q # qs) (os, cs) =
     placeQuotes placeOrder (Suc i) qs
       ((case placeOrder i q of None \<Rightarrow> os | Some order \<Rightarrow> setAdd os (id_o order)),
        cs @ [PlaceOrder (tokenId_q q) (side_q q) (price_q q) (size_q q)])"

definition updateQuotes ::
  "Config \<Rightarrow> (nat \<Rightarrow> Quote \<Rightarrow> Order option) \<Rightarrow> int \<Rightarrow> System \<Rightarrow> string \<Rightarrow> System" where
  "updateQuotes cfg placeOrder now st marketId =
     (case map_of (activeMarkets st) marketId of
        None \<Rightarrow> st
      | Some am \<Rightarrow>
          if \<not> checkRiskLimits cfg st marketId then st
          else
            (case getSnapshot (monitor st) (yesTokenId am) of
               None \<Rightarrow> st
             | Some yesSnapshot \<Rightarrow>
                 (case getSnapshot (monitor st) (noTokenId am) of
                    None \<Rightarrow> st
                  | Some noSnapshot \<Rightarrow>
                      let yesQuotes = calculateQuotes st yesSnapshot (config am) YES marketId;
                          noQuotes = calculateQuotes st noSnapshot (config am) NO marketId;
                          st1 = cancelAllOrders st marketId;
                          placed = placeQuotes placeOrder 0 (yesQuotes @ noQuotes) ([], calls st1)
                      in st1\<lparr> calls := snd placed,
                              activeMarkets :=
                                mapSet (activeMarkets st1) marketId
                                  (am\<lparr> orders := fst placed, lastUpdate := now \<rparr>) \<rparr>)))"

text \<open>
  \<open>startMarketMaking\<close> on the market the client returned (\<open>None\<close> for \<open>null\<close>).
  \<open>cbYes\<close> and \<open>cbNo\<close> are the two closures it subscribes.
\<close>

definition startMarketMaking ::
  "Config \<Rightarrow> (nat \<Rightarrow> Quote \<Rightarrow> Order option) \<Rightarrow> int \<Rightarrow> callback \<Rightarrow> callback \<Rightarrow> Market option
     \<Rightarrow> System \<Rightarrow> string \<Rightarrow> PartialConfig option \<Rightarrow> bool \<times> System" where
  "startMarketMaking cfg placeOrder now cbYes cbNo fetched st marketId customConfig =
     (case fetched of
        None \<Rightarrow> (False, st)
      | Some mkt \<Rightarrow>
          if length (clobTokenIds mkt) < 2 then (False, st)
          else
            let yesId = clobTokenIds mkt ! 0;
                noId = clobTokenIds mkt ! 1;
                marketConfig =
                  \<lparr> spreadBps = orNum (Option.bind customConfig spreadBps_opt)
                                       (defaultSpreadBps (strategy cfg)),
                    orderSizeUsd = orNum (Option.bind customConfig orderSizeUsd_opt)
                                         (defaultOrderSizeUsd (strategy cfg)),
                    maxPositionSizeUsd = orNum (Option.bind customConfig maxPositionSizeUsd_opt)
                                               (maxPositionSizeUsd_s (strategy cfg)),
                    maxInventoryImbalance =
                      orNum (Option.bind customConfig maxInventoryImbalance_opt)
                            (maxInventoryImbalance_s (strategy cfg)) \<rparr>;
                activeMarket =
                  \<lparr> market = mkt, config = marketConfig, yesTokenId = yesId, noTokenId = noId,
                    orders = [], lastUpdate = now \<rparr>;
                mon1 = startMonitoring (monitor st) [yesId, noId];
                mon2 = snd (subscribe mon1 yesId cbYes);
                mon3 = snd (subscribe mon2 noId cbNo);
                st1 = st\<lparr> activeMarkets := mapSet (activeMarkets st) marketId activeMarket,
                          monitor := mon3, running := True \<rparr>
            in (True, updateQuotes cfg placeOrder now st1 marketId))"

section \<open>The quote algorithm in the words of the specification\<close>

text \<open>
  The spread in basis points is widened by one half when the imbalance exceeds 0.3 in
  absolute value; the spread in price terms is that fraction of the mid price.
\<close>

definition spec_adjustedSpreadBps :: "jsnum \<Rightarrow> jsnum \<Rightarrow> jsnum" where
  "spec_adjustedSpreadBps bps imbalance =
     (if jgt (jabs imbalance) (Num (3 / 10)) then jmul bps (Num (3 / 2)) else bps)"

definition spec_adjustedSpread :: "jsnum \<Rightarrow> jsnum \<Rightarrow> jsnum \<Rightarrow> jsnum" where
  "spec_adjustedSpread mid bps imbalance =
     jdiv (jmul mid (spec_adjustedSpreadBps bps imbalance)) (Num 10000)"

text \<open>
  The factors of the buy and of the sell size. An imbalance above 0.2 halves the buy
  size and raises the sell size by one half for YES, and the reverse for NO; an
  imbalance below -0.2 does the opposite; otherwise both sizes stay.
\<close>

definition spec_sizeSkew :: "outcome_label \<Rightarrow> jsnum \<Rightarrow> rat \<times> rat" where
  "spec_sizeSkew oc imbalance =
     (if jgt imbalance (Num (2 / 10))
      then (if oc = YES then (1 / 2, 3 / 2) else (3 / 2, 1 / 2))
      else if jlt imbalance (Num (- (2 / 10)))
      then (if oc = YES then (3 / 2, 1 / 2) else (1 / 2, 3 / 2))
      else (1, 1))"

section \<open>Example inputs\<close>

definition position :: "string \<Rightarrow> string \<Rightarrow> string \<Rightarrow> string \<Rightarrow> Position" where
  "position cid oc sz pr =
     \<lparr> conditionId = cid, outcome = oc, size_p = sz, avgPrice = pr, curPrice = pr,
       cashPnl = ''0'', percentPnl = ''0'' \<rparr>"



definition longYesCache :: positions where
  "longYesCache = updateInventory (Data (PositionArray
      [position ''c'' ''YES'' ''150'' ''0.5'', position ''c'' ''NO'' ''50'' ''0.5''])) []"

definition levelAt :: "string \<Rightarrow> level" where
  "levelAt p = LevelObject \<lparr> price = p, size_l = ''100'' \<rparr>"

definition book :: "level list \<Rightarrow> level list \<Rightarrow> Orderbook" where
  "book bs as = \<lparr> bids = Some bs, asks = Some as, timestamp_ob = None,
                  min_order_size = None, tick_size = None \<rparr>"

text \<open>Levels in the three representations, and a bid list with a price that is no number.\<close>

definition mixedBids :: "level list" where
  "mixedBids = [levelAt ''0.48'', LevelTuple [''0.49'', ''10''], LevelString ''0.47'']"

definition mixedAsks :: "level list" where
  "mixedAsks = [levelAt ''0.53'', LevelTuple [''0.51'', ''10''], LevelString ''0.52'']"

definition unparsableBids :: "level list" where
  "unparsableBids = [levelAt ''0.48'', levelAt ''n/a'']"

definition emptyMonitor :: OrderbookMonitor where
  "emptyMonitor = \<lparr> snapshots = [], updateCallbacks = [], monitoring = [] \<rparr>"

text \<open>A book whose best bid is 0, and monitors with two registrations on the token
  \<open>t\<close>: of the same callback, and of two callbacks.\<close>

definition zeroBidBook :: Orderbook where
  "zeroBidBook = book [levelAt ''0''] [levelAt ''0.5'']"

definition twiceSubscribed :: OrderbookMonitor where
  "twiceSubscribed = snd (subscribe (snd (subscribe emptyMonitor ''t'' 1)) ''t'' 1)"

definition twoSubscribers :: OrderbookMonitor where
  "twoSubscribers = snd (subscribe (snd (subscribe emptyMonitor ''t'' 1)) ''t'' 2)"

text \<open>A market with its two tokens, the process configuration with the defaults of
  \<open>config.ts\<close>, and a session that has two orders outstanding.\<close>

definition exampleMarket :: Market where
  "exampleMarket =
     \<lparr> id_m = ''m1'', question = ''Q'', slug = ''q'', conditionId_m = ''c'',
       clobTokenIds = [''tokYes'', ''tokNo''], active = True, closed = False,
       outcomes = [''Yes'', ''No''] \<rparr>"

definition defaultConfig :: Config where
  "defaultConfig =
     \<lparr> strategy = \<lparr> defaultSpreadBps = Num 50, defaultOrderSizeUsd = Num 10,
                    maxPositionSizeUsd_s = Num 100, maxInventoryImbalance_s = Num (6 / 10),
                    orderRefreshIntervalMs = 5000 \<rparr>,
       risk = \<lparr> maxTotalExposureUsd = Num 1000, maxPositionPerMarketUsd = Num 200,
                enableRiskLimits = True \<rparr> \<rparr>"

definition sessionConfig :: MarketMakerConfig where
  "sessionConfig =
     \<lparr> spreadBps = Num 50, orderSizeUsd = Num 10, maxPositionSizeUsd = Num 100,
       maxInventoryImbalance = Num (6 / 10) \<rparr>"

definition exampleSession :: ActiveMarket where
  "exampleSession =
     \<lparr> market = exampleMarket, config = sessionConfig, yesTokenId = ''tokYes'',
       noTokenId = ''tokNo'', orders = [''o1'', ''o2''], lastUpdate = 3 \<rparr>"

text \<open>A monitor that has ingested a book with mid price 0.5 for both tokens.\<close>

definition quotedMonitor :: OrderbookMonitor where
  "quotedMonitor =
     fst (updateOrderbook
            (fst (updateOrderbook emptyMonitor ''tokYes'' 7 (Some (book mixedBids mixedAsks))))
            ''tokNo'' 7 (Some (book mixedBids mixedAsks)))"

definition systemWith :: "positions \<Rightarrow> System" where
  "systemWith ps =
     \<lparr> inventory = ps, monitor = quotedMonitor, activeMarkets = [(''m1'', exampleSession)],
       running = True, calls = [] \<rparr>"

text \<open>165 YES and 35 NO at 0.5: values 82.5 and 17.5, imbalance 0.65.\<close>

definition skewedCache :: positions where
  "skewedCache = updateInventory (Data (PositionArray
      [position ''c'' ''YES'' ''165'' ''0.5'', position ''c'' ''NO'' ''35'' ''0.5''])) []"

text \<open>An exchange that accepts every placement, and override configurations.\<close>

definition acceptAll :: "nat \<Rightarrow> Quote \<Rightarrow> Order option" where
  "acceptAll i q =
     Some \<lparr> id_o = ''n'' @ decimal (int i), marketId_o = ''m1'', tokenId_o = tokenId_q q,
            side_o = side_q q, price_o = price_q q, size_o = size_q q, filled = ''0'',
            status = ''LIVE'', createdAt = ''0'' \<rparr>"

definition zeroOverride :: PartialConfig where
  "zeroOverride =
     \<lparr> spreadBps_opt = Some (Num 0), orderSizeUsd_opt = None, maxPositionSizeUsd_opt = None,
       maxInventoryImbalance_opt = Some (Num 0) \<rparr>"

definition partialOverride :: PartialConfig where
  "partialOverride =
     \<lparr> spreadBps_opt = Some (Num 80), orderSizeUsd_opt = None, maxPositionSizeUsd_opt = None,
       maxInventoryImbalance_opt = Some (Num (1 / 2)) \<rparr>"

definition emptySystem :: System where
  "emptySystem =
     \<lparr> inventory = [], monitor = emptyMonitor, activeMarkets = [], running = False,
       calls = [] \<rparr>"

text \<open>The snapshot of a book with mid price 0.5, and of one with bid -0.5 and ask 0.5,
  whose mid price is 0.\<close>

definition midSnapshot :: OrderbookSnapshot where
  "midSnapshot = makeSnapshot ''tokYes'' (book mixedBids mixedAsks) 7"

definition zeroMidSnapshot :: OrderbookSnapshot where
  "zeroMidSnapshot = makeSnapshot ''tokYes'' (book [levelAt ''-0.5''] [levelAt ''0.5'']) 7"




section \<open>Properties of the inventory\<close>





text \<open>The \<open>catch\<close> of \<open>updateInventory\<close> keeps the cache, and a list that was
  fetched replaces the cache without regard to what it held.\<close>

lemma updateInventoryWith_rejected: "updateInventoryWith (Inl err) cache = cache"
  by (simp add: updateInventoryWith_def)

lemma updateInventory_replaces: "updateInventory r cache = updateInventory r []"
  by (simp add: updateInventory_def updateInventoryWith_def)

lemma updateInventory_Failed: "updateInventory Failed cache = []"
  by (simp add: updateInventory_def updateInventoryWith_def getPositions_def)

text \<open>
  C4 on the code. A failed request makes \<open>getPositions\<close> return the empty list, which
  \<open>updateInventory\<close> takes for the positions: the cache of two positions is emptied,
  and the imbalance read from it goes from 1/2 to 0.
\<close>

theorem failed_fetch_empties_cache:
  "updateInventory Failed longYesCache = []
   \<and> length longYesCache = 2
   \<and> getInventoryImbalance longYesCache ''c'' = Num (1 / 2)
   \<and> getInventoryImbalance (updateInventory Failed longYesCache) ''c'' = Num 0"
  by code_simp

section \<open>Properties of the orderbook snapshot\<close>

lemma jlt_NaN_right [simp]: "jlt x NaN = False"
  by (cases x) auto

lemma jlt_trans: "jlt x y \<Longrightarrow> jlt y z \<Longrightarrow> jlt x z"
  by (cases x; cases y; cases z) auto

lemma jlt_total: "x \<noteq> NaN \<Longrightarrow> y \<noteq> NaN \<Longrightarrow> jlt x y \<or> x = y \<or> jlt y x"
  by (cases x; cases y) auto

lemma foldl_jmax2_NaN: "foldl jmax2 NaN xs = NaN"
  by (induction xs) (simp_all add: jmax2_def)

lemma foldl_jmin2_NaN: "foldl jmin2 NaN xs = NaN"
  by (induction xs) (simp_all add: jmin2_def)

lemma foldl_jmax2_has_NaN: "NaN \<in> set xs \<Longrightarrow> foldl jmax2 acc xs = NaN"
  by (induction xs arbitrary: acc) (auto simp: jmax2_def foldl_jmax2_NaN)

lemma foldl_jmin2_has_NaN: "NaN \<in> set xs \<Longrightarrow> foldl jmin2 acc xs = NaN"
  by (induction xs arbitrary: acc) (auto simp: jmin2_def foldl_jmin2_NaN)

text \<open>Without NaN the fold keeps the greatest value seen so far.\<close>

lemma foldl_jmax2_greatest:
  "acc \<noteq> NaN \<Longrightarrow> NaN \<notin> set xs \<Longrightarrow>
     foldl jmax2 acc xs \<in> set (acc # xs)
     \<and> (\<forall>x \<in> set (acc # xs). x = foldl jmax2 acc xs \<or> jlt x (foldl jmax2 acc xs))"
proof (induction xs arbitrary: acc)
  case Nil
  then show ?case by simp
next
  case (Cons a xs)
  have a: "a \<noteq> NaN" using Cons.prems by auto
  have m: "jmax2 acc a \<noteq> NaN" using Cons.prems a by (simp add: jmax2_def)
  have ih: "foldl jmax2 (jmax2 acc a) xs \<in> set (jmax2 acc a # xs)
     \<and> (\<forall>x \<in> set (jmax2 acc a # xs).
           x = foldl jmax2 (jmax2 acc a) xs \<or> jlt x (foldl jmax2 (jmax2 acc a) xs))"
    using Cons.IH [OF m] Cons.prems by simp
  have below: "(acc = jmax2 acc a \<or> jlt acc (jmax2 acc a))
                \<and> (a = jmax2 acc a \<or> jlt a (jmax2 acc a))"
    using jlt_total [OF Cons.prems(1) a] Cons.prems(1) a by (auto simp: jmax2_def)
  have mem: "jmax2 acc a = acc \<or> jmax2 acc a = a" by (auto simp: jmax2_def)
  show ?case using ih below mem by (auto intro: jlt_trans)
qed

lemma foldl_jmin2_least:
  "acc \<noteq> NaN \<Longrightarrow> NaN \<notin> set xs \<Longrightarrow>
     foldl jmin2 acc xs \<in> set (acc # xs)
     \<and> (\<forall>x \<in> set (acc # xs). x = foldl jmin2 acc xs \<or> jlt (foldl jmin2 acc xs) x)"
proof (induction xs arbitrary: acc)
  case Nil
  then show ?case by simp
next
  case (Cons a xs)
  have a: "a \<noteq> NaN" using Cons.prems by auto
  have m: "jmin2 acc a \<noteq> NaN" using Cons.prems a by (simp add: jmin2_def)
  have ih: "foldl jmin2 (jmin2 acc a) xs \<in> set (jmin2 acc a # xs)
     \<and> (\<forall>x \<in> set (jmin2 acc a # xs).
           x = foldl jmin2 (jmin2 acc a) xs \<or> jlt (foldl jmin2 (jmin2 acc a) xs) x)"
    using Cons.IH [OF m] Cons.prems by simp
  have below: "(acc = jmin2 acc a \<or> jlt (jmin2 acc a) acc)
                \<and> (a = jmin2 acc a \<or> jlt (jmin2 acc a) a)"
    using jlt_total [OF Cons.prems(1) a] Cons.prems(1) a by (auto simp: jmin2_def)
  have mem: "jmin2 acc a = acc \<or> jmin2 acc a = a" by (auto simp: jmin2_def)
  show ?case using ih below mem by (auto intro: jlt_trans)
qed

lemma Math_max_greatest:
  assumes "xs \<noteq> []" "NaN \<notin> set xs"
  shows "Math_max xs \<in> set xs \<and> (\<forall>x \<in> set xs. x = Math_max xs \<or> jlt x (Math_max xs))"
proof -
  have g: "foldl jmax2 (Infty False) xs \<in> set (Infty False # xs)
     \<and> (\<forall>x \<in> set (Infty False # xs).
           x = foldl jmax2 (Infty False) xs \<or> jlt x (foldl jmax2 (Infty False) xs))"
    using foldl_jmax2_greatest [of "Infty False" xs] assms by simp
  obtain a where a: "a \<in> set xs" using assms(1) by (cases xs) auto
  have "a = foldl jmax2 (Infty False) xs \<or> jlt a (foldl jmax2 (Infty False) xs)"
    using g a by simp
  then have "foldl jmax2 (Infty False) xs \<in> set xs"
    using g a by (cases a) auto
  then show ?thesis using g by (simp add: Math_max_def)
qed

lemma Math_min_least:
  assumes "xs \<noteq> []" "NaN \<notin> set xs"
  shows "Math_min xs \<in> set xs \<and> (\<forall>x \<in> set xs. x = Math_min xs \<or> jlt (Math_min xs) x)"
proof -
  have g: "foldl jmin2 (Infty True) xs \<in> set (Infty True # xs)
     \<and> (\<forall>x \<in> set (Infty True # xs).
           x = foldl jmin2 (Infty True) xs \<or> jlt (foldl jmin2 (Infty True) xs) x)"
    using foldl_jmin2_least [of "Infty True" xs] assms by simp
  obtain a where a: "a \<in> set xs" using assms(1) by (cases xs) auto
  have "a = foldl jmin2 (Infty True) xs \<or> jlt (foldl jmin2 (Infty True) xs) a"
    using g a by simp
  then have "foldl jmin2 (Infty True) xs \<in> set xs"
    using g a by (cases a) auto
  then show ?thesis using g by (simp add: Math_min_def)
qed

text \<open>
  C5, as the code has it. A missing or empty side gives no best price. On a non-empty
  side whose prices are all numbers, the best bid is a greatest and the best ask a
  least of the prices of the levels, in any of the three representations. A level whose
  price is no number is not left out: it makes the best price of its side NaN, and the
  update goes on.
\<close>

theorem best_bid_ask:
  "(bids ob = None \<or> bids ob = Some [] \<longrightarrow> getBestBid ob = None)
   \<and> (asks ob = None \<or> asks ob = Some [] \<longrightarrow> getBestAsk ob = None)
   \<and> (bids ob = Some bs \<and> bs \<noteq> [] \<and> NaN \<notin> levelPrice ` set bs \<longrightarrow>
        (\<exists>b. getBestBid ob = Some b \<and> b \<in> levelPrice ` set bs
           \<and> (\<forall>l \<in> set bs. levelPrice l = b \<or> jlt (levelPrice l) b)))
   \<and> (asks ob = Some as \<and> as \<noteq> [] \<and> NaN \<notin> levelPrice ` set as \<longrightarrow>
        (\<exists>a. getBestAsk ob = Some a \<and> a \<in> levelPrice ` set as
           \<and> (\<forall>l \<in> set as. levelPrice l = a \<or> jlt a (levelPrice l))))
   \<and> (bids ob = Some bs \<and> NaN \<in> levelPrice ` set bs \<longrightarrow> getBestBid ob = Some NaN)
   \<and> (asks ob = Some as \<and> NaN \<in> levelPrice ` set as \<longrightarrow> getBestAsk ob = Some NaN)"
proof -
  have e1: "bids ob = None \<or> bids ob = Some [] \<longrightarrow> getBestBid ob = None"
    by (auto simp: getBestBid_def)
  have e2: "asks ob = None \<or> asks ob = Some [] \<longrightarrow> getBestAsk ob = None"
    by (auto simp: getBestAsk_def)
  have b: "bids ob = Some bs \<and> bs \<noteq> [] \<and> NaN \<notin> levelPrice ` set bs \<longrightarrow>
        (\<exists>b. getBestBid ob = Some b \<and> b \<in> levelPrice ` set bs
           \<and> (\<forall>l \<in> set bs. levelPrice l = b \<or> jlt (levelPrice l) b))"
    using Math_max_greatest [of "map levelPrice bs"] by (auto simp: getBestBid_def)
  have a: "asks ob = Some as \<and> as \<noteq> [] \<and> NaN \<notin> levelPrice ` set as \<longrightarrow>
        (\<exists>a. getBestAsk ob = Some a \<and> a \<in> levelPrice ` set as
           \<and> (\<forall>l \<in> set as. levelPrice l = a \<or> jlt a (levelPrice l)))"
    using Math_min_least [of "map levelPrice as"] by (auto simp: getBestAsk_def)
  have n1: "bids ob = Some bs \<and> NaN \<in> levelPrice ` set bs \<longrightarrow> getBestBid ob = Some NaN"
    using foldl_jmax2_has_NaN [of "map levelPrice bs" "Infty False"]
    by (auto simp: getBestBid_def Math_max_def)
  have n2: "asks ob = Some as \<and> NaN \<in> levelPrice ` set as \<longrightarrow> getBestAsk ob = Some NaN"
    using foldl_jmin2_has_NaN [of "map levelPrice as" "Infty True"]
    by (auto simp: getBestAsk_def Math_min_def)
  show ?thesis using e1 e2 b a n1 n2 by blast
qed

theorem best_bid_ask_witness:
  "getBestBid (book [] mixedAsks) = None
   \<and> (\<exists>b. getBestBid (book mixedBids mixedAsks) = Some b \<and> b \<in> levelPrice ` set mixedBids
         \<and> (\<forall>l \<in> set mixedBids. levelPrice l = b \<or> jlt (levelPrice l) b))
   \<and> (\<exists>a. getBestAsk (book mixedBids mixedAsks) = Some a \<and> a \<in> levelPrice ` set mixedAsks
         \<and> (\<forall>l \<in> set mixedAsks. levelPrice l = a \<or> jlt a (levelPrice l)))
   \<and> getBestBid (book mixedBids mixedAsks) = Some (Num (49 / 100))
   \<and> getBestAsk (book mixedBids mixedAsks) = Some (Num (51 / 100))
   \<and> getBestBid (book unparsableBids mixedAsks) = Some NaN"
proof -
  have b: "bids (book mixedBids mixedAsks) = Some mixedBids \<and> mixedBids \<noteq> []
           \<and> NaN \<notin> levelPrice ` set mixedBids"
    by code_simp
  have a: "asks (book mixedBids mixedAsks) = Some mixedAsks \<and> mixedAsks \<noteq> []
           \<and> NaN \<notin> levelPrice ` set mixedAsks"
    by code_simp
  have e: "bids (book [] mixedAsks) = None \<or> bids (book [] mixedAsks) = Some []"
    by (simp add: book_def)
  have n: "bids (book unparsableBids mixedAsks) = Some unparsableBids
           \<and> NaN \<in> levelPrice ` set unparsableBids"
    by code_simp
  have v1: "getBestBid (book mixedBids mixedAsks) = Some (Num (49 / 100))"
    by code_simp
  have v2: "getBestAsk (book mixedBids mixedAsks) = Some (Num (51 / 100))"
    by code_simp
  note c1 = best_bid_ask [of "book [] mixedAsks" "[]" "[]", THEN conjunct1, THEN mp, OF e]
  note c2 = best_bid_ask [of "book mixedBids mixedAsks" mixedBids mixedAsks,
      THEN conjunct2, THEN conjunct2, THEN conjunct1, THEN mp, OF b]
  note c3 = best_bid_ask [of "book mixedBids mixedAsks" mixedBids mixedAsks,
      THEN conjunct2, THEN conjunct2, THEN conjunct2, THEN conjunct1, THEN mp, OF a]
  note c4 = best_bid_ask [of "book unparsableBids mixedAsks" unparsableBids mixedAsks,
      THEN conjunct2, THEN conjunct2, THEN conjunct2, THEN conjunct2, THEN conjunct1,
      THEN mp, OF n]
  show ?thesis
    by (rule conjI c1 c2 c3 c4 v1 v2)+
qed

text \<open>
  C5 as stated fails on a bid list with one price that is no number: the best bid is
  NaN, not the 0.48 of the level that parses.
\<close>

theorem best_bid_unparsable_counterexample:
  "getBestBid (book unparsableBids mixedAsks) = Some NaN
   \<and> map levelPrice unparsableBids = [Num (12 / 25), NaN]"
  by code_simp

lemma map_of_mapSet: "map_of (mapSet m k v) k' = (if k' = k then Some v else map_of m k')"
  by (induction m) auto

lemma whenBoth_Some:
  "(whenBoth x y f \<noteq> None) = (\<exists>a b. x = Some a \<and> y = Some b \<and> truthy a \<and> truthy b)"
  by (auto simp: whenBoth_def split: option.splits)

lemma whenBoth_eq:
  "x = Some a \<Longrightarrow> y = Some b \<Longrightarrow> truthy a \<Longrightarrow> truthy b \<Longrightarrow> whenBoth x y f = Some (f a b)"
  by (simp add: whenBoth_def)

lemma getSnapshot_updateOrderbook:
  "getSnapshot (fst (updateOrderbook mon tid now (Some ob))) tid = Some (makeSnapshot tid ob now)"
  by (simp add: getSnapshot_def updateOrderbook_def map_of_mapSet)

text \<open>
  C6, as the code has it. The snapshot stored by an ingest has a mid price exactly when
  both best prices are present and truthy, that is neither zero nor NaN; the mid price
  is then half their sum. The spread is present under the same condition and is then
  best ask minus best bid.
\<close>

theorem snapshot_mid_spread:
  "\<exists>s. getSnapshot (fst (updateOrderbook mon tid now (Some ob))) tid = Some s
     \<and> bestBid s = getBestBid ob \<and> bestAsk s = getBestAsk ob
     \<and> ((midPrice s \<noteq> None) =
          (\<exists>b a. bestBid s = Some b \<and> bestAsk s = Some a \<and> truthy b \<and> truthy a))
     \<and> ((spread s \<noteq> None) =
          (\<exists>b a. bestBid s = Some b \<and> bestAsk s = Some a \<and> truthy b \<and> truthy a))
     \<and> (\<forall>b a. bestBid s = Some b \<and> bestAsk s = Some a \<and> truthy b \<and> truthy a \<longrightarrow>
          midPrice s = Some (jdiv (jadd b a) (Num 2)) \<and> spread s = Some (jsub a b))
     \<and> (\<forall>x y. bestBid s = Some (Num x) \<and> bestAsk s = Some (Num y) \<and> x \<noteq> 0 \<and> y \<noteq> 0 \<longrightarrow>
          midPrice s = Some (Num ((x + y) / 2)) \<and> spread s = Some (Num (y - x)))"
proof -
  let ?s = "makeSnapshot tid ob now"
  have bb: "bestBid ?s = getBestBid ob" and ba: "bestAsk ?s = getBestAsk ob"
    by (simp_all add: makeSnapshot_def Let_def)
  have mid: "midPrice ?s = whenBoth (bestBid ?s) (bestAsk ?s) (\<lambda>b a. jdiv (jadd b a) (Num 2))"
    by (simp add: makeSnapshot_def Let_def)
  have spr: "spread ?s = whenBoth (bestBid ?s) (bestAsk ?s) (\<lambda>b a. jsub a b)"
    by (simp add: makeSnapshot_def Let_def)
  have d1: "(midPrice ?s \<noteq> None) =
          (\<exists>b a. bestBid ?s = Some b \<and> bestAsk ?s = Some a \<and> truthy b \<and> truthy a)"
    unfolding mid whenBoth_Some by blast
  have d2: "(spread ?s \<noteq> None) =
          (\<exists>b a. bestBid ?s = Some b \<and> bestAsk ?s = Some a \<and> truthy b \<and> truthy a)"
    unfolding spr whenBoth_Some by blast
  have v: "\<forall>b a. bestBid ?s = Some b \<and> bestAsk ?s = Some a \<and> truthy b \<and> truthy a \<longrightarrow>
          midPrice ?s = Some (jdiv (jadd b a) (Num 2)) \<and> spread ?s = Some (jsub a b)"
    using mid spr by (auto simp: whenBoth_def)
  have r: "\<forall>x y. bestBid ?s = Some (Num x) \<and> bestAsk ?s = Some (Num y) \<and> x \<noteq> 0 \<and> y \<noteq> 0 \<longrightarrow>
          midPrice ?s = Some (Num ((x + y) / 2)) \<and> spread ?s = Some (Num (y - x))"
    using mid spr by (auto simp: whenBoth_def jsub_def)
  show ?thesis
    by (rule exI [of _ ?s]) (intro conjI getSnapshot_updateOrderbook bb ba d1 d2 v r)
qed

theorem snapshot_mid_spread_witness:
  "\<exists>s. getSnapshot (fst (updateOrderbook emptyMonitor ''t'' 7 (Some (book mixedBids mixedAsks)))) ''t'' = Some s
     \<and> bestBid s = Some (Num (49 / 100)) \<and> bestAsk s = Some (Num (51 / 100))
     \<and> midPrice s = Some (Num (1 / 2)) \<and> spread s = Some (Num (1 / 50))"
proof -
  have v1: "getBestBid (book mixedBids mixedAsks) = Some (Num (49 / 100))"
    by code_simp
  have v2: "getBestAsk (book mixedBids mixedAsks) = Some (Num (51 / 100))"
    by code_simp
  from snapshot_mid_spread [of emptyMonitor "''t''" 7 "book mixedBids mixedAsks"]
  obtain s where all:
    "getSnapshot (fst (updateOrderbook emptyMonitor ''t'' 7 (Some (book mixedBids mixedAsks)))) ''t''
       = Some s
     \<and> bestBid s = getBestBid (book mixedBids mixedAsks)
     \<and> bestAsk s = getBestAsk (book mixedBids mixedAsks)
     \<and> ((midPrice s \<noteq> None) =
          (\<exists>b a. bestBid s = Some b \<and> bestAsk s = Some a \<and> truthy b \<and> truthy a))
     \<and> ((spread s \<noteq> None) =
          (\<exists>b a. bestBid s = Some b \<and> bestAsk s = Some a \<and> truthy b \<and> truthy a))
     \<and> (\<forall>b a. bestBid s = Some b \<and> bestAsk s = Some a \<and> truthy b \<and> truthy a \<longrightarrow>
          midPrice s = Some (jdiv (jadd b a) (Num 2)) \<and> spread s = Some (jsub a b))
     \<and> (\<forall>x y. bestBid s = Some (Num x) \<and> bestAsk s = Some (Num y) \<and> x \<noteq> 0 \<and> y \<noteq> 0 \<longrightarrow>
          midPrice s = Some (Num ((x + y) / 2)) \<and> spread s = Some (Num (y - x)))" ..
  note s = all [THEN conjunct1]
  note bb = all [THEN conjunct2, THEN conjunct1]
  note ba = all [THEN conjunct2, THEN conjunct2, THEN conjunct1]
  note r = all [THEN conjunct2, THEN conjunct2, THEN conjunct2, THEN conjunct2,
      THEN conjunct2, THEN conjunct2, THEN spec, THEN spec, THEN mp]
  have "bestBid s = Some (Num (49 / 100)) \<and> bestAsk s = Some (Num (51 / 100))
        \<and> (49 / 100 :: rat) \<noteq> 0 \<and> (51 / 100 :: rat) \<noteq> 0"
    using bb ba v1 v2 by simp
  from r [OF this]
  have "midPrice s = Some (Num (1 / 2)) \<and> spread s = Some (Num (1 / 50))"
    by simp
  then show ?thesis using s bb ba v1 v2 by (intro exI [of _ s]) simp
qed

text \<open>
  C6 as stated fails on a book whose best bid is 0: both best prices are defined, and
  the snapshot has neither a mid price nor a spread.
\<close>

theorem snapshot_zero_bid_counterexample:
  "map_option (\<lambda>s. (bestBid s, bestAsk s, midPrice s, spread s))
     (getSnapshot (fst (updateOrderbook emptyMonitor ''t'' 7 (Some zeroBidBook))) ''t'')
   = Some (Some (Num 0), Some (Num (1 / 2)), None, None)"
  by code_simp

section \<open>Properties of the subscriptions\<close>

lemma callbacksOf_subscribe:
  "callbacksOf (snd (subscribe m tid cb)) tid' =
     (if tid' = tid then setAdd (callbacksOf m tid) cb else callbacksOf m tid')"
  by (simp add: subscribe_def callbacksOf_def map_of_mapSet)

lemma callbacksOf_unsubscribe:
  "callbacksOf (unsubscribe (tid, cb) m) tid' =
     (if tid' = tid then setDelete (callbacksOf m tid) cb else callbacksOf m tid')"
  by (simp add: unsubscribe_def callbacksOf_def map_of_mapSet setDelete_def split: option.splits)

lemma fired_updateOrderbook: "snd (updateOrderbook m tid now (Some ob)) = callbacksOf m tid"
  by (simp add: updateOrderbook_def)

lemma callbacksOf_updateOrderbook:
  "callbacksOf (fst (updateOrderbook m tid now fetched)) tid' = callbacksOf m tid'"
  by (simp add: updateOrderbook_def callbacksOf_def split: option.splits)

lemma distinct_setAdd: "distinct xs \<Longrightarrow> distinct (setAdd xs x)"
  by (simp add: setAdd_def)

lemma distinct_setDelete: "distinct xs \<Longrightarrow> distinct (setDelete xs x)"
  by (simp add: setDelete_def distinct_removeAll)

lemma count_list_distinct: "distinct xs \<Longrightarrow> x \<in> set xs \<Longrightarrow> count_list xs x = 1"
  by (induction xs) auto

text \<open>No callback is repeated in the set of a token: this holds in the empty monitor and
  is kept by every operation.\<close>

lemma callbacksOf_emptyMonitor: "callbacksOf emptyMonitor tid = []"
  by (simp add: callbacksOf_def emptyMonitor_def)

lemma distinct_callbacks_subscribe:
  "distinct (callbacksOf m tid') \<Longrightarrow> distinct (callbacksOf (snd (subscribe m tid cb)) tid')"
  by (auto simp: callbacksOf_subscribe distinct_setAdd)

lemma distinct_callbacks_unsubscribe:
  "distinct (callbacksOf m tid') \<Longrightarrow> distinct (callbacksOf (unsubscribe h m) tid')"
  by (cases h) (auto simp: callbacksOf_unsubscribe distinct_setDelete)

lemma distinct_callbacks_updateOrderbook:
  "distinct (callbacksOf m tid') \<Longrightarrow>
     distinct (callbacksOf (fst (updateOrderbook m tid now fetched)) tid')"
  by (simp add: callbacksOf_updateOrderbook)

text \<open>
  C9, as the code has it. The callbacks of a token form a set of function objects, so
  a registration is known by its callback. Running the unsubscribe function that
  \<open>subscribe\<close> returned for \<open>cb\<close> on a token, in any later state of the monitor:
  \<open>cb\<close> is not invoked by the next ingest of the token, every other callback
  registered for the token is invoked exactly once, and the callbacks of the other
  tokens are as before. A callback just subscribed is invoked exactly once per ingest.
\<close>

theorem unsubscribe_removes_own_callback:
  assumes d: "distinct (callbacksOf m tid)"
  shows "cb \<notin> set (snd (updateOrderbook (unsubscribe (fst (subscribe m0 tid cb)) m) tid now (Some ob)))
    \<and> (\<forall>cb'. cb' \<in> set (callbacksOf m tid) \<and> cb' \<noteq> cb \<longrightarrow>
          count_list (snd (updateOrderbook (unsubscribe (fst (subscribe m0 tid cb)) m) tid now (Some ob))) cb' = 1)
    \<and> (\<forall>tid'. tid' \<noteq> tid \<longrightarrow>
          callbacksOf (unsubscribe (fst (subscribe m0 tid cb)) m) tid' = callbacksOf m tid')
    \<and> count_list (snd (updateOrderbook (snd (subscribe m tid cb)) tid now (Some ob))) cb = 1"
proof -
  have h: "fst (subscribe m0 tid cb) = (tid, cb)" by (simp add: subscribe_def)
  have f: "snd (updateOrderbook (unsubscribe (tid, cb) m) tid now (Some ob)) = removeAll cb (callbacksOf m tid)"
    by (simp add: fired_updateOrderbook callbacksOf_unsubscribe setDelete_def)
  have a: "cb \<notin> set (removeAll cb (callbacksOf m tid))" by simp
  have b: "\<forall>cb'. cb' \<in> set (callbacksOf m tid) \<and> cb' \<noteq> cb \<longrightarrow> count_list (removeAll cb (callbacksOf m tid)) cb' = 1"
    using d by (simp add: count_list_distinct distinct_removeAll)
  have c: "\<forall>tid'. tid' \<noteq> tid \<longrightarrow> callbacksOf (unsubscribe (tid, cb) m) tid' = callbacksOf m tid'"
    by (simp add: callbacksOf_unsubscribe)
  have e: "count_list (snd (updateOrderbook (snd (subscribe m tid cb)) tid now (Some ob))) cb = 1"
    using d by (simp add: count_list_distinct fired_updateOrderbook callbacksOf_subscribe setAdd_def)
  show ?thesis unfolding h f by (intro conjI a b c e)
qed

theorem unsubscribe_removes_own_callback_witness:
  "distinct (callbacksOf twoSubscribers ''t'')
   \<and> 1 \<notin> set (snd (updateOrderbook (unsubscribe (fst (subscribe emptyMonitor ''t'' 1)) twoSubscribers)
                      ''t'' 7 (Some zeroBidBook)))
   \<and> count_list (snd (updateOrderbook (unsubscribe (fst (subscribe emptyMonitor ''t'' 1)) twoSubscribers)
                      ''t'' 7 (Some zeroBidBook))) 2 = 1"
proof -
  have d: "distinct (callbacksOf twoSubscribers ''t'')" by code_simp
  have o: "2 \<in> set (callbacksOf twoSubscribers ''t'') \<and> (2::nat) \<noteq> 1" by code_simp
  note t = unsubscribe_removes_own_callback
    [where cb = 1 and ?m0.0 = emptyMonitor and now = 7 and ob = zeroBidBook, OF d]
  show ?thesis
    by (intro conjI d t [THEN conjunct1]
        t [THEN conjunct2, THEN conjunct1, THEN spec, THEN mp, OF o])
qed

text \<open>
  C9 as stated fails when one callback is subscribed twice to a token. The two
  registrations are one entry of the set: an ingest invokes the callback once, and
  after the unsubscribe function of the first registration has run the second
  registration is not invoked any more.
\<close>

theorem unsubscribe_shared_callback_counterexample:
  "snd (updateOrderbook twiceSubscribed ''t'' 7 (Some zeroBidBook)) = [1]
   \<and> snd (updateOrderbook (unsubscribe (fst (subscribe emptyMonitor ''t'' 1)) twiceSubscribed)
           ''t'' 7 (Some zeroBidBook)) = []"
  by code_simp

section \<open>Properties of the quotes\<close>

text \<open>With a truthy mid price and a session for the market, \<open>calculateQuotes\<close> returns a
  buy and a sell quote; with a falsy mid price it returns none.\<close>

lemma calculateQuotes_quoting:
  assumes "midPrice snapshot = Some mid" "truthy mid"
    and "map_of (activeMarkets st) marketId = Some am"
  shows "calculateQuotes st snapshot cfg oc marketId =
    [\<lparr> side_q = BUY,
       price_q = toFixed6 (jsub mid (jdiv (spec_adjustedSpread mid (spreadBps cfg)
                   (getInventoryImbalance (inventory st) (conditionId_m (market am)))) (Num 2))),
       size_q = toFixed6 (fst (skewSizes oc
                   (getInventoryImbalance (inventory st) (conditionId_m (market am)))
                   (jdiv (orderSizeUsd cfg) mid))),
       tokenId_q = tokenId snapshot \<rparr>,
     \<lparr> side_q = SELL,
       price_q = toFixed6 (jadd mid (jdiv (spec_adjustedSpread mid (spreadBps cfg)
                   (getInventoryImbalance (inventory st) (conditionId_m (market am)))) (Num 2))),
       size_q = toFixed6 (snd (skewSizes oc
                   (getInventoryImbalance (inventory st) (conditionId_m (market am)))
                   (jdiv (orderSizeUsd cfg) mid))),
       tokenId_q = tokenId snapshot \<rparr>]"
  using assms
  by (simp add: calculateQuotes_def Let_def spec_adjustedSpread_def spec_adjustedSpreadBps_def)

lemma calculateQuotes_falsy:
  "midPrice snapshot = Some mid \<Longrightarrow> \<not> truthy mid \<Longrightarrow> calculateQuotes st snapshot cfg oc marketId = []"
  by (simp add: calculateQuotes_def)

lemma jgt_jlt_exclusive: "jgt x (Num a) \<Longrightarrow> jlt x (Num b) \<Longrightarrow> b \<le> a \<Longrightarrow> False"
  by (cases x) (auto simp: jgt_def)

lemma jmul_one: "jmul x (Num 1) = x"
  by (cases x) auto

text \<open>On finite numbers the adjusted spread is \<open>mid * bps / 10000\<close>, with the basis
  points taken one and a half times above the threshold.\<close>

lemma spec_adjustedSpread_Num:
  "spec_adjustedSpread (Num m) (Num s) i =
     Num (m * (if jgt (jabs i) (Num (3 / 10)) then s * (3 / 2) else s) / 10000)"
  by (simp add: spec_adjustedSpread_def spec_adjustedSpreadBps_def)

text \<open>The skew branches of the code against the factors of the specification.\<close>

lemma skewSizes_spec:
  "skewSizes oc i base =
     (jmul base (Num (fst (spec_sizeSkew oc i))), jmul base (Num (snd (spec_sizeSkew oc i))))"
proof (cases "jgt i (Num (2 / 10))")
  case True
  then have "\<not> jlt i (Num (- (2 / 10)))"
    using jgt_jlt_exclusive [of i "2 / 10" "- (2 / 10)"] by auto
  with True show ?thesis by (cases oc) (simp_all add: skewSizes_def spec_sizeSkew_def)
next
  case False
  then show ?thesis by (cases oc) (simp_all add: skewSizes_def spec_sizeSkew_def jmul_one)
qed

text \<open>
  C2, as the code has it. For a snapshot whose mid price is defined and truthy, that is
  neither zero nor NaN, and a market with a session, the calculation returns exactly a
  buy and a sell quote for the token of the snapshot. Their prices are
  \<open>mid - adjustedSpread / 2\<close> and \<open>mid + adjustedSpread / 2\<close> in six decimals, where
  the adjusted spread is the mid price times the spread in basis points over 10000, and
  the basis points are taken one and a half times when the imbalance exceeds 0.3 in
  absolute value.
\<close>

theorem quote_prices:
  assumes mid: "midPrice snapshot = Some mid" and t: "truthy mid"
    and am: "map_of (activeMarkets st) marketId = Some am"
  shows "map (\<lambda>q. (side_q q, price_q q, tokenId_q q)) (calculateQuotes st snapshot cfg oc marketId) =
    [(BUY,
      toFixed6 (jsub mid (jdiv (spec_adjustedSpread mid (spreadBps cfg)
                  (getInventoryImbalance (inventory st) (conditionId_m (market am)))) (Num 2))),
      tokenId snapshot),
     (SELL,
      toFixed6 (jadd mid (jdiv (spec_adjustedSpread mid (spreadBps cfg)
                  (getInventoryImbalance (inventory st) (conditionId_m (market am)))) (Num 2))),
      tokenId snapshot)]"
  by (simp add: calculateQuotes_quoting [OF mid t am])

text \<open>The two scenarios: mid 0.5 and 50 basis points, at imbalance 0 and at
  imbalance 0.5.\<close>

theorem quote_prices_witness:
  "map (\<lambda>q. (side_q q, price_q q, tokenId_q q))
       (calculateQuotes (systemWith []) midSnapshot sessionConfig YES ''m1'')
     = [(BUY, ''0.498750'', ''tokYes''), (SELL, ''0.501250'', ''tokYes'')]
   \<and> map (\<lambda>q. (side_q q, price_q q, tokenId_q q))
       (calculateQuotes (systemWith longYesCache) midSnapshot sessionConfig YES ''m1'')
     = [(BUY, ''0.498125'', ''tokYes''), (SELL, ''0.501875'', ''tokYes'')]"
proof -
  have mid: "midPrice midSnapshot = Some (Num (1 / 2))" by code_simp
  have t: "truthy (Num (1 / 2))" by simp
  have a: "map_of (activeMarkets (systemWith [])) ''m1'' = Some exampleSession"
    by (simp add: systemWith_def)
  have b: "map_of (activeMarkets (systemWith longYesCache)) ''m1'' = Some exampleSession"
    by (simp add: systemWith_def)
  have A: "map (\<lambda>q. (side_q q, price_q q, tokenId_q q))
       (calculateQuotes (systemWith []) midSnapshot sessionConfig YES ''m1'')
     = [(BUY, ''0.498750'', ''tokYes''), (SELL, ''0.501250'', ''tokYes'')]"
    unfolding quote_prices [OF mid t a] by code_simp
  have B: "map (\<lambda>q. (side_q q, price_q q, tokenId_q q))
       (calculateQuotes (systemWith longYesCache) midSnapshot sessionConfig YES ''m1'')
     = [(BUY, ''0.498125'', ''tokYes''), (SELL, ''0.501875'', ''tokYes'')]"
    unfolding quote_prices [OF mid t b] by code_simp
  show ?thesis by (intro conjI A B)
qed

text \<open>
  C2 as stated fails on a snapshot whose mid price is defined and 0, as an ingest of a
  bid at -0.5 and an ask at 0.5 stores it: no quote is returned.
\<close>

theorem zero_mid_counterexample:
  "bestBid zeroMidSnapshot = Some (Num (- (1 / 2)))
   \<and> bestAsk zeroMidSnapshot = Some (Num (1 / 2))
   \<and> midPrice zeroMidSnapshot = Some (Num 0)
   \<and> calculateQuotes (systemWith []) zeroMidSnapshot sessionConfig YES ''m1'' = []"
  by code_simp

text \<open>
  C3. For a snapshot with a defined mid price, every quote returned has the size
  \<open>orderSizeUsd / mid\<close> times the factor of its side, in six decimals: for YES 0.5 on the
  buy and 1.5 on the sell side when the imbalance is above 0.2, 1.5 and 0.5 when it is
  below -0.2, for NO the reverse, and 1 on both sides otherwise. With a truthy mid
  price the quotes returned are one buy and one sell quote.
\<close>

theorem quote_sizes:
  assumes mid: "midPrice snapshot = Some mid"
    and am: "map_of (activeMarkets st) marketId = Some am"
  shows "(\<forall>q \<in> set (calculateQuotes st snapshot cfg oc marketId).
            size_q q = toFixed6 (jmul (jdiv (orderSizeUsd cfg) mid)
              (Num ((if side_q q = BUY then fst else snd)
                 (spec_sizeSkew oc (getInventoryImbalance (inventory st) (conditionId_m (market am))))))))
    \<and> (truthy mid \<longrightarrow> map side_q (calculateQuotes st snapshot cfg oc marketId) = [BUY, SELL])"
proof (cases "truthy mid")
  case True
  show ?thesis
    by (simp add: calculateQuotes_quoting [OF mid True am] skewSizes_spec)
next
  case False
  then show ?thesis by (simp add: calculateQuotes_falsy [OF mid])
qed

text \<open>The scenario: order size 10, mid 0.5 and imbalance 0.5, for YES and for NO.\<close>

theorem quote_sizes_witness:
  "getInventoryImbalance (inventory (systemWith longYesCache)) ''c'' = Num (1 / 2)
   \<and> map (\<lambda>q. (side_q q, size_q q))
       (calculateQuotes (systemWith longYesCache) midSnapshot sessionConfig YES ''m1'')
     = [(BUY, ''10.000000''), (SELL, ''30.000000'')]
   \<and> map (\<lambda>q. (side_q q, size_q q))
       (calculateQuotes (systemWith longYesCache) midSnapshot sessionConfig NO ''m1'')
     = [(BUY, ''30.000000''), (SELL, ''10.000000'')]"
proof -
  have mid: "midPrice midSnapshot = Some (Num (1 / 2))" by code_simp
  have t: "truthy (Num (1 / 2))" by simp
  have b: "map_of (activeMarkets (systemWith longYesCache)) ''m1'' = Some exampleSession"
    by (simp add: systemWith_def)
  have i: "getInventoryImbalance (inventory (systemWith longYesCache)) ''c'' = Num (1 / 2)"
    by code_simp
  have sz: "toFixed6 (jmul (jdiv (orderSizeUsd sessionConfig) (Num (1 / 2)))
              (Num (fst (spec_sizeSkew YES (getInventoryImbalance (inventory (systemWith longYesCache))
                 (conditionId_m (market exampleSession))))))) = ''10.000000''
        \<and> toFixed6 (jmul (jdiv (orderSizeUsd sessionConfig) (Num (1 / 2)))
              (Num (snd (spec_sizeSkew YES (getInventoryImbalance (inventory (systemWith longYesCache))
                 (conditionId_m (market exampleSession))))))) = ''30.000000''
        \<and> toFixed6 (jmul (jdiv (orderSizeUsd sessionConfig) (Num (1 / 2)))
              (Num (fst (spec_sizeSkew NO (getInventoryImbalance (inventory (systemWith longYesCache))
                 (conditionId_m (market exampleSession))))))) = ''30.000000''
        \<and> toFixed6 (jmul (jdiv (orderSizeUsd sessionConfig) (Num (1 / 2)))
              (Num (snd (spec_sizeSkew NO (getInventoryImbalance (inventory (systemWith longYesCache))
                 (conditionId_m (market exampleSession))))))) = ''10.000000''"
    by code_simp
  have sizes: "map (\<lambda>q. (side_q q, size_q q))
       (calculateQuotes (systemWith longYesCache) midSnapshot sessionConfig oc ''m1'')
     = [(BUY, toFixed6 (jmul (jdiv (orderSizeUsd sessionConfig) (Num (1 / 2)))
              (Num (fst (spec_sizeSkew oc (getInventoryImbalance (inventory (systemWith longYesCache))
                 (conditionId_m (market exampleSession)))))))),
        (SELL, toFixed6 (jmul (jdiv (orderSizeUsd sessionConfig) (Num (1 / 2)))
              (Num (snd (spec_sizeSkew oc (getInventoryImbalance (inventory (systemWith longYesCache))
                 (conditionId_m (market exampleSession))))))))]" for oc
  proof -
    note q = quote_sizes [OF mid b, where cfg = sessionConfig and oc = oc]
    from q [THEN conjunct2, THEN mp, OF t]
    obtain q1 q2 where l: "calculateQuotes (systemWith longYesCache) midSnapshot sessionConfig oc ''m1''
        = [q1, q2]" and s1: "side_q q1 = BUY" and s2: "side_q q2 = SELL"
      by (auto simp: map_eq_Cons_conv)
    have "q1 \<in> set (calculateQuotes (systemWith longYesCache) midSnapshot sessionConfig oc ''m1'')"
      and "q2 \<in> set (calculateQuotes (systemWith longYesCache) midSnapshot sessionConfig oc ''m1'')"
      using l by simp_all
    from q [THEN conjunct1, THEN bspec, OF this(1)] q [THEN conjunct1, THEN bspec, OF this(2)]
    show ?thesis using l s1 s2 by simp
  qed
  show ?thesis
    using sizes [of YES] sizes [of NO] sz i by simp
qed





section \<open>Properties of the refresh\<close>

text \<open>
  C7. A refresh that the risk check denies returns the system as it was: the orders of
  the session and the calls sent to the exchange are unchanged. The check denies
  whenever risk limits are enabled and the absolute imbalance of the session's
  condition exceeds the session's limit.
\<close>

theorem denied_refresh_changes_nothing:
  "(\<not> checkRiskLimits cfg st marketId \<longrightarrow> updateQuotes cfg placeOrder now st marketId = st)
   \<and> (enableRiskLimits (risk cfg) \<and> map_of (activeMarkets st) marketId = Some am
        \<and> jgt (jabs (getInventoryImbalance (inventory st) (conditionId_m (market am))))
               (maxInventoryImbalance (config am))
      \<longrightarrow> \<not> checkRiskLimits cfg st marketId)"
proof (intro conjI impI)
  assume "\<not> checkRiskLimits cfg st marketId"
  then show "updateQuotes cfg placeOrder now st marketId = st"
    by (simp add: updateQuotes_def split: option.splits)
next
  assume "enableRiskLimits (risk cfg) \<and> map_of (activeMarkets st) marketId = Some am
        \<and> jgt (jabs (getInventoryImbalance (inventory st) (conditionId_m (market am))))
               (maxInventoryImbalance (config am))"
  then show "\<not> checkRiskLimits cfg st marketId"
    by (simp add: checkRiskLimits_def Let_def)
qed

text \<open>The scenario: limit 0.6 and imbalance 0.65, with two orders outstanding.\<close>

theorem denied_refresh_changes_nothing_witness:
  "getInventoryImbalance (inventory (systemWith skewedCache)) ''c'' = Num (65 / 100)
   \<and> maxInventoryImbalance (config exampleSession) = Num (6 / 10)
   \<and> \<not> checkRiskLimits defaultConfig (systemWith skewedCache) ''m1''
   \<and> updateQuotes defaultConfig acceptAll 9 (systemWith skewedCache) ''m1'' = systemWith skewedCache
   \<and> map_option orders (map_of (activeMarkets (updateQuotes defaultConfig acceptAll 9 (systemWith skewedCache) ''m1'')) ''m1'') = Some [''o1'', ''o2'']
   \<and> calls (updateQuotes defaultConfig acceptAll 9 (systemWith skewedCache) ''m1'') = []"
proof -
  have i: "getInventoryImbalance (inventory (systemWith skewedCache)) ''c'' = Num (65 / 100)"
    by code_simp
  have m: "maxInventoryImbalance (config exampleSession) = Num (6 / 10)"
    by code_simp
  have h: "enableRiskLimits (risk defaultConfig)
        \<and> map_of (activeMarkets (systemWith skewedCache)) ''m1'' = Some exampleSession
        \<and> jgt (jabs (getInventoryImbalance (inventory (systemWith skewedCache))
                      (conditionId_m (market exampleSession))))
               (maxInventoryImbalance (config exampleSession))"
    by code_simp
  note t = denied_refresh_changes_nothing
    [where cfg = defaultConfig and st = "systemWith skewedCache" and marketId = "''m1''"
       and am = exampleSession and placeOrder = acceptAll and now = 9]
  note d = t [THEN conjunct2, THEN mp, OF h]
  note u = t [THEN conjunct1, THEN mp, OF d]
  have o: "map_option orders (map_of (activeMarkets (systemWith skewedCache)) ''m1'') = Some [''o1'', ''o2'']"
    by code_simp
  have c: "calls (systemWith skewedCache) = []"
    by code_simp
  show ?thesis unfolding u by (intro conjI i m d o c refl)
qed

text \<open>A refresh that the check allows does cancel and place: here at imbalance 0.5.\<close>

lemma allowed_refresh_example:
  "checkRiskLimits defaultConfig (systemWith longYesCache) ''m1''
   \<and> calls (updateQuotes defaultConfig acceptAll 9 (systemWith longYesCache) ''m1'') =
       [CancelOrder ''o1'', CancelOrder ''o2'',
        PlaceOrder ''tokYes'' BUY ''0.498125'' ''10.000000'',
        PlaceOrder ''tokYes'' SELL ''0.501875'' ''30.000000'',
        PlaceOrder ''tokNo'' BUY ''0.498125'' ''30.000000'',
        PlaceOrder ''tokNo'' SELL ''0.501875'' ''10.000000'']
   \<and> map_option orders (map_of (activeMarkets (updateQuotes defaultConfig acceptAll 9 (systemWith longYesCache) ''m1'')) ''m1'') = Some [''n0'', ''n1'', ''n2'', ''n3'']"
  by code_simp



section \<open>Properties of the session start\<close>

lemma updateQuotes_session:
  assumes "map_of (activeMarkets st) marketId = Some am"
  shows "\<exists>am'. map_of (activeMarkets (updateQuotes cfg placeOrder now st marketId)) marketId = Some am'
           \<and> config am' = config am \<and> market am' = market am"
  using assms
  by (auto simp: updateQuotes_def cancelAllOrders_def map_of_mapSet Let_def split: option.splits)

lemma orNum_cases:
  "(\<forall>v. x = Some v \<and> truthy v \<longrightarrow> orNum x d = v)
   \<and> (x = None \<longrightarrow> orNum x d = d)
   \<and> (\<forall>v. x = Some v \<and> \<not> truthy v \<longrightarrow> orNum x d = d)"
  by (simp add: orNum_def)

text \<open>
  C8, as the code has it. After a successful start the session of the market has, in
  each of the four fields, the value of the override when the override gives one that is
  truthy, and the process-wide default when the override is absent, omits the field,
  or gives zero or NaN for it.
\<close>

theorem session_config_merge:
  assumes ok: "startMarketMaking cfg placeOrder now cbYes cbNo fetched st marketId custom = (True, st')"
  shows "\<exists>am. map_of (activeMarkets st') marketId = Some am
    \<and> (\<forall>v. Option.bind custom spreadBps_opt = Some v \<and> truthy v \<longrightarrow> spreadBps (config am) = v)
    \<and> (Option.bind custom spreadBps_opt = None \<longrightarrow>
          spreadBps (config am) = defaultSpreadBps (strategy cfg))
    \<and> (\<forall>v. Option.bind custom spreadBps_opt = Some v \<and> \<not> truthy v \<longrightarrow>
          spreadBps (config am) = defaultSpreadBps (strategy cfg))
    \<and> (\<forall>v. Option.bind custom orderSizeUsd_opt = Some v \<and> truthy v \<longrightarrow> orderSizeUsd (config am) = v)
    \<and> (Option.bind custom orderSizeUsd_opt = None \<longrightarrow>
          orderSizeUsd (config am) = defaultOrderSizeUsd (strategy cfg))
    \<and> (\<forall>v. Option.bind custom orderSizeUsd_opt = Some v \<and> \<not> truthy v \<longrightarrow>
          orderSizeUsd (config am) = defaultOrderSizeUsd (strategy cfg))
    \<and> (\<forall>v. Option.bind custom maxPositionSizeUsd_opt = Some v \<and> truthy v \<longrightarrow>
          maxPositionSizeUsd (config am) = v)
    \<and> (Option.bind custom maxPositionSizeUsd_opt = None \<longrightarrow>
          maxPositionSizeUsd (config am) = maxPositionSizeUsd_s (strategy cfg))
    \<and> (\<forall>v. Option.bind custom maxPositionSizeUsd_opt = Some v \<and> \<not> truthy v \<longrightarrow>
          maxPositionSizeUsd (config am) = maxPositionSizeUsd_s (strategy cfg))
    \<and> (\<forall>v. Option.bind custom maxInventoryImbalance_opt = Some v \<and> truthy v \<longrightarrow>
          maxInventoryImbalance (config am) = v)
    \<and> (Option.bind custom maxInventoryImbalance_opt = None \<longrightarrow>
          maxInventoryImbalance (config am) = maxInventoryImbalance_s (strategy cfg))
    \<and> (\<forall>v. Option.bind custom maxInventoryImbalance_opt = Some v \<and> \<not> truthy v \<longrightarrow>
          maxInventoryImbalance (config am) = maxInventoryImbalance_s (strategy cfg))"
proof -
  let ?mc = "\<lparr> spreadBps = orNum (Option.bind custom spreadBps_opt) (defaultSpreadBps (strategy cfg)),
               orderSizeUsd = orNum (Option.bind custom orderSizeUsd_opt) (defaultOrderSizeUsd (strategy cfg)),
               maxPositionSizeUsd = orNum (Option.bind custom maxPositionSizeUsd_opt) (maxPositionSizeUsd_s (strategy cfg)),
               maxInventoryImbalance = orNum (Option.bind custom maxInventoryImbalance_opt) (maxInventoryImbalance_s (strategy cfg)) \<rparr>"
  obtain mkt where f: "fetched = Some mkt" and len: "\<not> length (clobTokenIds mkt) < 2"
    using ok by (auto simp: startMarketMaking_def split: option.splits if_splits)
  obtain st1 am1 where st': "st' = updateQuotes cfg placeOrder now st1 marketId"
    and am1: "map_of (activeMarkets st1) marketId = Some am1" and c1: "config am1 = ?mc"
    using ok f len by (auto simp: startMarketMaking_def Let_def map_of_mapSet)
  obtain am where am: "map_of (activeMarkets st') marketId = Some am" and c: "config am = ?mc"
    using updateQuotes_session [OF am1, of cfg placeOrder now] st' c1 by auto
  have s: "spreadBps (config am) = orNum (Option.bind custom spreadBps_opt) (defaultSpreadBps (strategy cfg))"
    and o: "orderSizeUsd (config am) = orNum (Option.bind custom orderSizeUsd_opt) (defaultOrderSizeUsd (strategy cfg))"
    and p: "maxPositionSizeUsd (config am) = orNum (Option.bind custom maxPositionSizeUsd_opt) (maxPositionSizeUsd_s (strategy cfg))"
    and i: "maxInventoryImbalance (config am) = orNum (Option.bind custom maxInventoryImbalance_opt) (maxInventoryImbalance_s (strategy cfg))"
    using c by simp_all
  show ?thesis
  proof (rule exI [of _ am], intro conjI)
    show "map_of (activeMarkets st') marketId = Some am" by (rule am)
  qed (simp_all add: s o p i orNum_def)
qed


theorem session_config_merge_witness:
  "\<exists>am. map_of (activeMarkets (snd (startMarketMaking defaultConfig acceptAll 9 1 2
              (Some exampleMarket) emptySystem ''m1'' (Some partialOverride)))) ''m1'' = Some am
     \<and> spreadBps (config am) = Num 80
     \<and> orderSizeUsd (config am) = Num 10
     \<and> maxInventoryImbalance (config am) = Num (1 / 2)"
proof -
  let ?r = "startMarketMaking defaultConfig acceptAll 9 1 2
              (Some exampleMarket) emptySystem ''m1'' (Some partialOverride)"
  have "fst ?r = True" by code_simp
  then have ok: "?r = (True, snd ?r)" by (cases ?r) simp
  have b1: "Option.bind (Some partialOverride) spreadBps_opt = Some (Num 80) \<and> truthy (Num 80)"
    by (simp add: partialOverride_def)
  have b2: "Option.bind (Some partialOverride) orderSizeUsd_opt = None"
    by (simp add: partialOverride_def)
  have b3: "Option.bind (Some partialOverride) maxInventoryImbalance_opt = Some (Num (1 / 2))
            \<and> truthy (Num (1 / 2))"
    by (simp add: partialOverride_def)
  have d: "defaultOrderSizeUsd (strategy defaultConfig) = Num 10"
    by (simp add: defaultConfig_def)
  from session_config_merge [OF ok] obtain am where
    am: "map_of (activeMarkets (snd ?r)) ''m1'' = Some am"
    and s: "\<forall>v. Option.bind (Some partialOverride) spreadBps_opt = Some v \<and> truthy v \<longrightarrow>
              spreadBps (config am) = v"
    and o: "Option.bind (Some partialOverride) orderSizeUsd_opt = None \<longrightarrow>
              orderSizeUsd (config am) = defaultOrderSizeUsd (strategy defaultConfig)"
    and i: "\<forall>v. Option.bind (Some partialOverride) maxInventoryImbalance_opt = Some v \<and> truthy v \<longrightarrow>
              maxInventoryImbalance (config am) = v"
    by (elim exE conjE)
  have "spreadBps (config am) = Num 80" by (rule s [THEN spec, THEN mp, OF b1])
  moreover have "orderSizeUsd (config am) = Num 10" using o b2 d by simp
  moreover have "maxInventoryImbalance (config am) = Num (1 / 2)"
    by (rule i [THEN spec, THEN mp, OF b3])
  ultimately show ?thesis using am by (intro exI [of _ am]) simp
qed

text \<open>
  C8 as stated fails for an override that provides 0: the session takes the defaults 50
  and 0.6 for the spread and the imbalance limit.
\<close>

theorem session_config_zero_override_counterexample:
  "spreadBps_opt zeroOverride = Some (Num 0)
   \<and> maxInventoryImbalance_opt zeroOverride = Some (Num 0)
   \<and> map_option config
        (map_of (activeMarkets (snd (startMarketMaking defaultConfig acceptAll 9 1 2
           (Some exampleMarket) emptySystem ''m1'' (Some zeroOverride)))) ''m1'')
      = Some \<lparr> spreadBps = Num 50, orderSizeUsd = Num 10, maxPositionSizeUsd = Num 100,
               maxInventoryImbalance = Num (6 / 10) \<rparr>"
  by code_simp

end
